theory Spec2Isabelle
  imports Complex_Main
begin

section \<open>Conventions of the embedding\<close>

text \<open>
  The program is Python. Its numbers (chakra amounts, costs, durations, clock readings) are
  Python ints and floats; they are modelled as \<^typ>\<open>real\<close>, so floating-point rounding is
  not part of the model. Gesture and jutsu names are \<^typ>\<open>string\<close>; Python's \<open>None\<close>
  is \<^term>\<open>None\<close>. Dictionaries are maps.

  The source reads the wall clock with \<open>time.time()\<close> inside its methods. The model passes
  the reading in as the argument \<open>now\<close>: every \<open>time.time()\<close> made while one call is served
  returns \<open>now\<close>, the timestamp of that call. A reading is a number of seconds since the
  epoch, so it is not \<open>0.0\<close>; the model leaves \<open>now\<close> free, and a theorem that needs a
  reading other than \<open>0.0\<close> says so in a hypothesis.

  A dictionary subscript \<open>d[k]\<close> raises \<open>KeyError\<close> on a missing key and a float division
  raises \<open>ZeroDivisionError\<close> on a zero divisor; both are results \<open>Inl\<close> of the model.
\<close>

datatype py_error = KeyError | ZeroDivisionError

definition subscript :: "('k \<rightharpoonup> 'v) \<Rightarrow> 'k \<Rightarrow> py_error + 'v" where
  "subscript d k = (case d k of None \<Rightarrow> Inl KeyError | Some v \<Rightarrow> Inr v)"

text \<open>\<open>d.get(k, default)\<close> never raises.\<close>

definition dict_get :: "('k \<rightharpoonup> 'v) \<Rightarrow> 'k \<Rightarrow> 'v \<Rightarrow> 'v" where
  "dict_get d k dflt = (case d k of None \<Rightarrow> dflt | Some v \<Rightarrow> v)"

section \<open>The chakra system: \<open>modules/chakra_system.py\<close>\<close>

record ChakraSystem =
  max_chakra :: real
  current_chakra :: real
  regen_rate :: real
  jutsu_costs :: "string \<rightharpoonup> real"
  cooldowns :: "string \<rightharpoonup> real"
  cooldown_durations :: "string \<rightharpoonup> real"

definition init_jutsu_costs :: "string \<rightharpoonup> real" where
  "init_jutsu_costs = map_of
     [(''Fist'', 30), (''Open Palm'', 25), (''Peace Sign'', 40), (''Thumbs Up'', 20),
      (''Rock Sign'', 35), (''Gun Sign'', 30), (''Three Fingers'', 25), (''Point'', 15)]"

definition init_cooldown_durations :: "string \<rightharpoonup> real" where
  "init_cooldown_durations = map_of
     [(''Fist'', 2.0), (''Open Palm'', 3.0), (''Peace Sign'', 4.0), (''Thumbs Up'', 2.0),
      (''Rock Sign'', 3.5), (''Gun Sign'', 2.5), (''Three Fingers'', 2.0), (''Point'', 1.5)]"

text \<open>\<open>ChakraSystem.__init__(max_chakra, regen_rate)\<close>.\<close>

definition ChakraSystem_init :: "real \<Rightarrow> real \<Rightarrow> ChakraSystem" where
  "ChakraSystem_init m r =
     \<lparr>max_chakra = m, current_chakra = m, regen_rate = r,
      jutsu_costs = init_jutsu_costs, cooldowns = Map.empty,
      cooldown_durations = init_cooldown_durations\<rparr>"

text \<open>
  \<open>can_use_jutsu\<close>: the membership test, the chakra test and the cooldown test, in the
  order of the source.
\<close>

definition can_use_jutsu :: "ChakraSystem \<Rightarrow> string \<Rightarrow> real \<Rightarrow> py_error + bool" where
  "can_use_jutsu cs jutsu_name now =
     (if jutsu_costs cs jutsu_name = None then Inr False
      else case subscript (jutsu_costs cs) jutsu_name of
        Inl e \<Rightarrow> Inl e
      | Inr cost \<Rightarrow>
          if current_chakra cs < cost then Inr False
          else if cooldowns cs jutsu_name \<noteq> None then
            (case subscript (cooldowns cs) jutsu_name of
               Inl e \<Rightarrow> Inl e
             | Inr end_time \<Rightarrow> if now < end_time then Inr False else Inr True)
          else Inr True)"

text \<open>
  \<open>use_jutsu\<close> returns its boolean together with the updated object.
\<close>

definition use_jutsu :: "ChakraSystem \<Rightarrow> string \<Rightarrow> real \<Rightarrow> py_error + (bool \<times> ChakraSystem)" where
  "use_jutsu cs jutsu_name now =
     (case can_use_jutsu cs jutsu_name now of
        Inl e \<Rightarrow> Inl e
      | Inr can \<Rightarrow>
          if \<not> can then Inr (False, cs)
          else case subscript (jutsu_costs cs) jutsu_name of
            Inl e \<Rightarrow> Inl e
          | Inr cost \<Rightarrow>
              let cooldown_duration = dict_get (cooldown_durations cs) jutsu_name 2.0
              in Inr (True,
                      cs\<lparr>current_chakra := current_chakra cs - cost,
                         cooldowns := (cooldowns cs)(jutsu_name \<mapsto> now + cooldown_duration)\<rparr>))"

definition regenerate :: "ChakraSystem \<Rightarrow> ChakraSystem" where
  "regenerate cs =
     (if current_chakra cs < max_chakra cs
      then cs\<lparr>current_chakra := min (max_chakra cs) (current_chakra cs + regen_rate cs)\<rparr>
      else cs)"

definition get_cooldown_remaining :: "ChakraSystem \<Rightarrow> string \<Rightarrow> real \<Rightarrow> py_error + real" where
  "get_cooldown_remaining cs jutsu_name now =
     (if cooldowns cs jutsu_name = None then Inr 0.0
      else case subscript (cooldowns cs) jutsu_name of
        Inl e \<Rightarrow> Inl e
      | Inr end_time \<Rightarrow> Inr (max 0.0 (end_time - now)))"

definition reset :: "ChakraSystem \<Rightarrow> ChakraSystem" where
  "reset cs = cs\<lparr>current_chakra := max_chakra cs, cooldowns := Map.empty\<rparr>"

subsection \<open>Sequences of operations on the chakra system\<close>

text \<open>
  The three mutating methods as a datatype of calls, and the run of a list of calls; an
  exception ends the run.
\<close>

datatype chakra_call = Use_jutsu string real | Regenerate | Reset

fun chakra_step :: "ChakraSystem \<Rightarrow> chakra_call \<Rightarrow> py_error + ChakraSystem" where
  "chakra_step cs (Use_jutsu jutsu_name now) =
     (case use_jutsu cs jutsu_name now of Inl e \<Rightarrow> Inl e | Inr (ok, cs') \<Rightarrow> Inr cs')"
| "chakra_step cs Regenerate = Inr (regenerate cs)"
| "chakra_step cs Reset = Inr (reset cs)"

fun chakra_run :: "ChakraSystem \<Rightarrow> chakra_call list \<Rightarrow> py_error + ChakraSystem" where
  "chakra_run cs [] = Inr cs"
| "chakra_run cs (c # calls) =
     (case chakra_step cs c of Inl e \<Rightarrow> Inl e | Inr cs' \<Rightarrow> chakra_run cs' calls)"

section \<open>The jutsu engine: \<open>modules/jutsu_engine.py\<close>\<close>

text \<open>
  Of the engine the model keeps the gesture table, the list of running effects and their
  duration. Sound playback and drawing are outside the model.
\<close>

record effect =
  name :: string
  start_time :: real
  progress :: real

record JutsuEngine =
  jutsu_map :: "string \<rightharpoonup> string"
  active_effects :: "effect list"
  effect_duration :: real

definition init_jutsu_map :: "string \<rightharpoonup> string" where
  "init_jutsu_map = map_of
     [(''Fist'', ''Fire Style: Fireball Jutsu''),
      (''Open Palm'', ''Shadow Clone Jutsu''),
      (''Peace Sign'', ''Lightning Style: Chidori''),
      (''Thumbs Up'', ''Water Style: Water Dragon''),
      (''Rock Sign'', ''Earth Style: Rock Barrier''),
      (''Gun Sign'', ''Wind Style: Air Bullet''),
      (''Three Fingers'', ''Ice Style: Crystal Mirror''),
      (''Point'', ''Gentle Fist: Chakra Strike'')]"

definition JutsuEngine_init :: JutsuEngine where
  "JutsuEngine_init =
     \<lparr>jutsu_map = init_jutsu_map, active_effects = [], effect_duration = 1.5\<rparr>"

definition activate_jutsu ::
  "JutsuEngine \<Rightarrow> string \<Rightarrow> real \<Rightarrow> py_error + (string option \<times> JutsuEngine)" where
  "activate_jutsu je gesture now =
     (if jutsu_map je gesture \<noteq> None then
        (case subscript (jutsu_map je) gesture of
           Inl e \<Rightarrow> Inl e
         | Inr jutsu_name \<Rightarrow>
             Inr (Some jutsu_name,
                  je\<lparr>active_effects := active_effects je @
                       [\<lparr>name = jutsu_name, start_time = now, progress = 0.0\<rparr>]\<rparr>))
      else Inr (None, je))"

text \<open>
  \<open>update_effects\<close>: an effect older than the duration is dropped, the others get their
  progress \<open>elapsed / effect_duration\<close>.
\<close>

fun update_effect_list :: "real \<Rightarrow> real \<Rightarrow> effect list \<Rightarrow> py_error + effect list" where
  "update_effect_list now dur [] = Inr []"
| "update_effect_list now dur (e # es) =
     (let elapsed = now - start_time e in
      if elapsed > dur then update_effect_list now dur es
      else if dur = 0 then Inl ZeroDivisionError
      else case update_effect_list now dur es of
        Inl x \<Rightarrow> Inl x
      | Inr es' \<Rightarrow> Inr (e\<lparr>progress := elapsed / dur\<rparr> # es'))"

definition update_effects :: "JutsuEngine \<Rightarrow> real \<Rightarrow> py_error + JutsuEngine" where
  "update_effects je now =
     (case update_effect_list now (effect_duration je) (active_effects je) of
        Inl x \<Rightarrow> Inl x
      | Inr es \<Rightarrow> Inr (je\<lparr>active_effects := es\<rparr>))"

section \<open>The application: \<open>main.py\<close>\<close>

record JutsuRecognitionApp =
  jutsu_engine :: JutsuEngine
  chakra_system :: ChakraSystem
  last_gesture :: "string option"
  last_jutsu :: "string option"
  gesture_start_time :: "real option"
  gesture_hold_duration :: real
  paused :: bool

text \<open>\<open>JutsuRecognitionApp.__init__\<close>, the fields the gesture logic uses.\<close>

definition JutsuRecognitionApp_init :: JutsuRecognitionApp where
  "JutsuRecognitionApp_init =
     \<lparr>jutsu_engine = JutsuEngine_init,
      chakra_system = ChakraSystem_init 100 0.5,
      last_gesture = None, last_jutsu = None, gesture_start_time = None,
      gesture_hold_duration = 0.5, paused = False\<rparr>"

text \<open>
  Lines 175 to 182 of \<open>process_gesture\<close>: ask the chakra system, spend, start the effect.
  \<open>if jutsu_name:\<close> is false for \<open>None\<close> and for the empty string.
\<close>

definition try_activate :: "JutsuRecognitionApp \<Rightarrow> string \<Rightarrow> real \<Rightarrow> py_error + JutsuRecognitionApp" where
  "try_activate app gesture now =
     (case can_use_jutsu (chakra_system app) gesture now of
        Inl e \<Rightarrow> Inl e
      | Inr can \<Rightarrow>
          if \<not> can then Inr app
          else case use_jutsu (chakra_system app) gesture now of
            Inl e \<Rightarrow> Inl e
          | Inr (used, cs') \<Rightarrow>
              if \<not> used then Inr (app\<lparr>chakra_system := cs'\<rparr>)
              else case activate_jutsu (jutsu_engine app) gesture now of
                Inl e \<Rightarrow> Inl e
              | Inr (jutsu_name, je') \<Rightarrow>
                  Inr (app\<lparr>chakra_system := cs', jutsu_engine := je',
                           last_jutsu := (case jutsu_name of
                                            None \<Rightarrow> last_jutsu app
                                          | Some n \<Rightarrow> if n = [] then last_jutsu app else Some n)\<rparr>))"

text \<open>
  \<open>process_gesture\<close>. The Python method returns nothing; the first component of the
  model's result is the value the specification's \<open>update\<close> returns: \<open>Some gesture\<close>
  exactly when the call enters the branch guarded by
  \<open>hold_time >= self.gesture_hold_duration\<close>, where the held gesture is handed to the
  chakra system, and \<open>None\<close> on every other path.

  \<open>if self.gesture_start_time:\<close> is Python truthiness on an optional float: it is false
  for \<open>None\<close> and for \<open>0.0\<close>.
\<close>

definition process_gesture ::
  "JutsuRecognitionApp \<Rightarrow> string option \<Rightarrow> real \<Rightarrow> py_error + (string option \<times> JutsuRecognitionApp)" where
  "process_gesture app gesture now =
     (case gesture of
        None \<Rightarrow> Inr (None, app\<lparr>last_gesture := None, gesture_start_time := None\<rparr>)
      | Some g \<Rightarrow>
          if g = ''Unknown'' then
            Inr (None, app\<lparr>last_gesture := None, gesture_start_time := None\<rparr>)
          else if Some g \<noteq> last_gesture app then
            Inr (None, app\<lparr>last_gesture := Some g, gesture_start_time := Some now\<rparr>)
          else case gesture_start_time app of
            None \<Rightarrow> Inr (None, app)
          | Some start \<Rightarrow>
              if start = 0 then Inr (None, app)
              else
                let hold_time = now - start in
                if hold_time \<ge> gesture_hold_duration app then
                  (case try_activate app g now of
                     Inl e \<Rightarrow> Inl e
                   | Inr app' \<Rightarrow> Inr (Some g, app'\<lparr>gesture_start_time := None\<rparr>))
                else Inr (None, app))"

text \<open>
  One pass of the loop of \<open>run\<close>, lines 204 to 216: the block under \<open>if not self.paused:\<close>.
  The argument \<open>gesture\<close> is what \<open>gesture_detector.get_gesture\<close> returned for the frame
  (\<open>None\<close> when no hand was found). \<open>if gesture:\<close> is false for \<open>None\<close> and for the
  empty string. Frame capture, drawing and the keyboard are outside the model.
\<close>

definition run_step ::
  "JutsuRecognitionApp \<Rightarrow> string option \<Rightarrow> real \<Rightarrow> py_error + (string option \<times> JutsuRecognitionApp)" where
  "run_step app gesture now =
     (if paused app then Inr (None, app)
      else case (if gesture \<noteq> None \<and> gesture \<noteq> Some [] then process_gesture app gesture now
                 else Inr (None, app)) of
        Inl e \<Rightarrow> Inl e
      | Inr (confirmed, app1) \<Rightarrow>
          let app2 = app1\<lparr>chakra_system := regenerate (chakra_system app1)\<rparr> in
          case update_effects (jutsu_engine app2) now of
            Inl e \<Rightarrow> Inl e
          | Inr je \<Rightarrow> Inr (confirmed, app2\<lparr>jutsu_engine := je\<rparr>))"

subsection \<open>Sequences of calls and what they show\<close>

text \<open>
  A run of \<open>process_gesture\<close> (or of the loop body) over a list of observations, each a
  gesture with the clock reading of its call; the results of the calls are collected in
  order.
\<close>

fun process_gestures ::
  "JutsuRecognitionApp \<Rightarrow> (string option \<times> real) list \<Rightarrow>
   py_error + (string option list \<times> JutsuRecognitionApp)" where
  "process_gestures app [] = Inr ([], app)"
| "process_gestures app ((gesture, now) # obs) =
     (case process_gesture app gesture now of
        Inl e \<Rightarrow> Inl e
      | Inr (c, app') \<Rightarrow>
          (case process_gestures app' obs of
             Inl e \<Rightarrow> Inl e
           | Inr (cs, app'') \<Rightarrow> Inr (c # cs, app'')))"

fun run_steps ::
  "JutsuRecognitionApp \<Rightarrow> (string option \<times> real) list \<Rightarrow>
   py_error + (string option list \<times> JutsuRecognitionApp)" where
  "run_steps app [] = Inr ([], app)"
| "run_steps app ((gesture, now) # obs) =
     (case run_step app gesture now of
        Inl e \<Rightarrow> Inl e
      | Inr (c, app') \<Rightarrow>
          (case run_steps app' obs of
             Inl e \<Rightarrow> Inl e
           | Inr (cs, app'') \<Rightarrow> Inr (c # cs, app'')))"

text \<open>The hold state of the application, and the views of a result used below.\<close>

definition hold_state :: "JutsuRecognitionApp \<Rightarrow> string option \<times> real option" where
  "hold_state app = (last_gesture app, gesture_start_time app)"

definition returned :: "py_error + ('a \<times> JutsuRecognitionApp) \<Rightarrow> py_error + 'a" where
  "returned r = (case r of Inl e \<Rightarrow> Inl e | Inr (x, app) \<Rightarrow> Inr x)"

definition hold_after ::
  "py_error + ('a \<times> JutsuRecognitionApp) \<Rightarrow> py_error + (string option \<times> real option)" where
  "hold_after r = (case r of Inl e \<Rightarrow> Inl e | Inr (x, app) \<Rightarrow> Inr (hold_state app))"

definition confirmations ::
  "py_error + (string option list \<times> JutsuRecognitionApp) \<Rightarrow> py_error + nat" where
  "confirmations r =
     (case r of Inl e \<Rightarrow> Inl e
      | Inr (outs, app) \<Rightarrow> Inr (length (filter (\<lambda>c. c \<noteq> None) outs)))"

text \<open>
  The hold invariant in the words of the specification: the start time is set if and only
  if a label is held.
\<close>

definition hold_iff :: "string option \<times> real option \<Rightarrow> bool" where
  "hold_iff h \<longleftrightarrow> (snd h \<noteq> None \<longleftrightarrow> fst h \<noteq> None)"

text \<open>What every call on the chakra system preserves, once it holds.\<close>

definition chakra_inv :: "ChakraSystem \<Rightarrow> bool" where
  "chakra_inv cs \<longleftrightarrow>
     0 \<le> current_chakra cs \<and> current_chakra cs \<le> max_chakra cs \<and>
     0 < max_chakra cs \<and> 0 \<le> regen_rate cs \<and>
     (\<forall>a c. jutsu_costs cs a = Some c \<longrightarrow> 0 \<le> c)"

section \<open>Properties of the chakra system\<close>

lemmas init_defs = JutsuRecognitionApp_init_def JutsuEngine_init_def ChakraSystem_init_def
  init_jutsu_costs_def init_cooldown_durations_def init_jutsu_map_def

text \<open>The guarded subscripts never raise: both methods have a closed form.\<close>

lemma can_use_jutsu_eq:
  "can_use_jutsu cs a t =
     Inr (\<exists>c. jutsu_costs cs a = Some c \<and> c \<le> current_chakra cs \<and>
              dict_get (cooldowns cs) a t \<le> t)"
  by (cases "jutsu_costs cs a"; cases "cooldowns cs a")
     (auto simp: can_use_jutsu_def subscript_def dict_get_def)

lemma use_jutsu_eq:
  "use_jutsu cs a t =
     (case jutsu_costs cs a of
        None \<Rightarrow> Inr (False, cs)
      | Some c \<Rightarrow>
          if c \<le> current_chakra cs \<and> dict_get (cooldowns cs) a t \<le> t
          then Inr (True,
                    cs\<lparr>current_chakra := current_chakra cs - c,
                       cooldowns := (cooldowns cs)
                         (a \<mapsto> t + dict_get (cooldown_durations cs) a 2.0)\<rparr>)
          else Inr (False, cs))"
  by (cases "jutsu_costs cs a") (auto simp: use_jutsu_def can_use_jutsu_eq subscript_def)

text \<open>
  Claim C1. For every action \<open>a\<close> and clock reading \<open>t\<close>, \<open>use_jutsu\<close> returns without an
  exception, and it returns \<open>True\<close> if and only if \<open>a\<close> has a registered cost, the chakra
  level is at least that cost, and \<open>cooldowns.get(a, t) \<le> t\<close>. Whenever it returns
  \<open>True\<close>, the level has gone down by exactly the cost and the cooldown of \<open>a\<close> ends at
  exactly \<open>t\<close> plus the duration the code looks up, \<open>cooldown_durations.get(a, 2.0)\<close>:
  for an action with a registered duration \<open>d\<close> that is \<open>t + d\<close>.
\<close>

theorem use_jutsu_succeeds_iff:
  "\<exists>ok cs'. use_jutsu cs a t = Inr (ok, cs') \<and>
     (ok \<longleftrightarrow> (\<exists>c. jutsu_costs cs a = Some c \<and> c \<le> current_chakra cs \<and>
                    dict_get (cooldowns cs) a t \<le> t)) \<and>
     (ok \<longrightarrow> (\<exists>c. jutsu_costs cs a = Some c \<and> current_chakra cs' = current_chakra cs - c) \<and>
             cooldowns cs' a = Some (t + dict_get (cooldown_durations cs) a 2.0) \<and>
             (\<forall>d. cooldown_durations cs a = Some d \<longrightarrow> cooldowns cs' a = Some (t + d)))"
  by (cases "jutsu_costs cs a") (auto simp: use_jutsu_eq dict_get_def)

text \<open>
  At the constructed system, \<open>Fist\<close> at reading \<open>7\<close>: the call succeeds, the level goes
  from \<open>100\<close> to \<open>70\<close> and the cooldown ends at \<open>7 + 2.0\<close>.
\<close>

theorem use_jutsu_succeeds_iff_witness:
  "use_jutsu (ChakraSystem_init 100 0.5) ''Fist'' 7 =
     Inr (True, (ChakraSystem_init 100 0.5)
                  \<lparr>current_chakra := 70, cooldowns := [''Fist'' \<mapsto> 9]\<rparr>)"
  using use_jutsu_succeeds_iff [of "ChakraSystem_init 100 0.5" "''Fist''" 7]
  by (simp add: use_jutsu_eq ChakraSystem_init_def init_jutsu_costs_def
        init_cooldown_durations_def dict_get_def)

text \<open>
  Claim C2. For every action id \<open>a\<close>, registered or not, and every reading \<open>t\<close>: when the
  activation is not eligible (no registered cost, or a level below the cost, or a cooldown
  that ends after \<open>t\<close>), \<open>use_jutsu\<close> returns \<open>False\<close>, raises nothing, and returns the
  object as it was: level, cooldowns, costs and durations are all unchanged.
\<close>

theorem use_jutsu_refused_unchanged:
  assumes "jutsu_costs cs a = None \<or>
           (\<exists>c. jutsu_costs cs a = Some c \<and> current_chakra cs < c) \<or>
           (\<exists>e. cooldowns cs a = Some e \<and> t < e)"
  shows "use_jutsu cs a t = Inr (False, cs)"
  using assms by (cases "jutsu_costs cs a") (auto simp: use_jutsu_eq dict_get_def)

text \<open>
  The three ways of not being eligible, each at a concrete system: an unknown id, a level
  of \<open>10\<close> against the cost \<open>30\<close>, and a cooldown that ends at \<open>9\<close> asked at \<open>8\<close>.
\<close>

theorem use_jutsu_refused_unchanged_witness:
  "use_jutsu (ChakraSystem_init 100 0.5) ''Dance'' 7 = Inr (False, ChakraSystem_init 100 0.5) \<and>
   use_jutsu ((ChakraSystem_init 100 0.5)\<lparr>current_chakra := 10\<rparr>) ''Fist'' 7 =
     Inr (False, (ChakraSystem_init 100 0.5)\<lparr>current_chakra := 10\<rparr>) \<and>
   use_jutsu ((ChakraSystem_init 100 0.5)\<lparr>cooldowns := [''Fist'' \<mapsto> 9]\<rparr>) ''Fist'' 8 =
     Inr (False, (ChakraSystem_init 100 0.5)\<lparr>cooldowns := [''Fist'' \<mapsto> 9]\<rparr>)"
proof -
  have unknown: "jutsu_costs (ChakraSystem_init 100 0.5) ''Dance'' = None"
    by (simp add: ChakraSystem_init_def init_jutsu_costs_def)
  have poor: "\<exists>c. jutsu_costs ((ChakraSystem_init 100 0.5)\<lparr>current_chakra := 10\<rparr>) ''Fist'' = Some c \<and>
                  current_chakra ((ChakraSystem_init 100 0.5)\<lparr>current_chakra := 10\<rparr>) < c"
    by (simp add: ChakraSystem_init_def init_jutsu_costs_def)
  have cooling: "\<exists>e. cooldowns ((ChakraSystem_init 100 0.5)\<lparr>cooldowns := [''Fist'' \<mapsto> 9]\<rparr>) ''Fist''
                       = Some e \<and> (8::real) < e"
    by simp
  from unknown poor cooling show ?thesis
    using use_jutsu_refused_unchanged [of "ChakraSystem_init 100 0.5" "''Dance''" 7]
      use_jutsu_refused_unchanged
        [of "(ChakraSystem_init 100 0.5)\<lparr>current_chakra := 10\<rparr>" "''Fist''" 7]
      use_jutsu_refused_unchanged
        [of "(ChakraSystem_init 100 0.5)\<lparr>cooldowns := [''Fist'' \<mapsto> 9]\<rparr>" "''Fist''" 8]
    by blast
qed

text \<open>Each call keeps the bounds on the level, and raises nothing.\<close>

lemma chakra_step_inv:
  assumes "chakra_inv cs"
  shows "\<exists>cs'. chakra_step cs c = Inr cs' \<and> chakra_inv cs'"
proof (cases c)
  case (Use_jutsu a t)
  show ?thesis
  proof (cases "jutsu_costs cs a")
    case None
    with Use_jutsu assms show ?thesis by (simp add: use_jutsu_eq)
  next
    case (Some k)
    with assms have k: "0 \<le> k" by (auto simp: chakra_inv_def)
    let ?cs' = "cs\<lparr>current_chakra := current_chakra cs - k,
                    cooldowns := (cooldowns cs)
                      (a \<mapsto> t + dict_get (cooldown_durations cs) a 2.0)\<rparr>"
    have spend: "chakra_inv ?cs'" if "k \<le> current_chakra cs"
    proof -
      from assms have "current_chakra cs \<le> max_chakra cs" by (simp add: chakra_inv_def)
      with k that have "0 \<le> current_chakra cs - k" "current_chakra cs - k \<le> max_chakra cs"
        by linarith+
      with assms show ?thesis by (simp add: chakra_inv_def)
    qed
    from Some Use_jutsu assms spend show ?thesis by (simp add: use_jutsu_eq)
  qed
next
  case Regenerate
  with assms show ?thesis by (auto simp: regenerate_def chakra_inv_def)
next
  case Reset
  with assms show ?thesis by (auto simp: reset_def chakra_inv_def)
qed

lemma chakra_run_inv:
  "chakra_inv cs \<Longrightarrow> \<exists>cs'. chakra_run cs calls = Inr cs' \<and> chakra_inv cs'"
proof (induction calls arbitrary: cs)
  case Nil
  then show ?case by simp
next
  case (Cons c calls)
  from chakra_step_inv [OF Cons.prems] obtain cs1 where
    s: "chakra_step cs c = Inr cs1" and i: "chakra_inv cs1" by blast
  from Cons.IH [OF i] s show ?case by simp
qed

lemma init_costs_nonneg: "init_jutsu_costs a = Some c \<Longrightarrow> 0 \<le> c"
  by (auto simp: init_jutsu_costs_def split: if_splits)

text \<open>
  Claim C3. From a state as the constructor leaves it (level equal to the capacity, a
  positive capacity, a regeneration rate that is not negative, and no negative registered
  cost), every sequence of \<open>use_jutsu\<close>, \<open>regenerate\<close> and \<open>reset\<close> calls runs to its end
  and leaves \<open>0 \<le> current_chakra \<le> max_chakra\<close>.
\<close>

theorem chakra_level_bounds:
  assumes "current_chakra cs = max_chakra cs" and "0 < max_chakra cs"
    and "0 \<le> regen_rate cs" and "\<forall>a c. jutsu_costs cs a = Some c \<longrightarrow> 0 \<le> c"
  shows "\<exists>cs'. chakra_run cs calls = Inr cs' \<and>
           0 \<le> current_chakra cs' \<and> current_chakra cs' \<le> max_chakra cs'"
proof -
  from assms have "chakra_inv cs" by (simp add: chakra_inv_def)
  from chakra_run_inv [OF this, of calls] show ?thesis by (auto simp: chakra_inv_def)
qed

text \<open>
  The system of the application, \<open>ChakraSystem(100, 0.5)\<close>, meets the four conditions
  (its costs are those of \<open>init_jutsu_costs\<close>, none negative); a run that spends,
  regenerates, is refused once and is reset stays within the bounds.
\<close>

theorem chakra_level_bounds_witness:
  "current_chakra (ChakraSystem_init 100 0.5) = max_chakra (ChakraSystem_init 100 0.5) \<and>
   0 < max_chakra (ChakraSystem_init 100 0.5) \<and>
   0 \<le> regen_rate (ChakraSystem_init 100 0.5) \<and>
   (\<exists>cs'. chakra_run (ChakraSystem_init 100 0.5)
            [Use_jutsu ''Fist'' 0, Regenerate, Use_jutsu ''Fist'' 1,
             Use_jutsu ''Peace Sign'' 1, Regenerate, Reset] = Inr cs' \<and>
          0 \<le> current_chakra cs' \<and> current_chakra cs' \<le> max_chakra cs')"
proof -
  have h1: "current_chakra (ChakraSystem_init 100 0.5) = max_chakra (ChakraSystem_init 100 0.5)"
    and h2: "0 < max_chakra (ChakraSystem_init 100 0.5)"
    and h3: "0 \<le> regen_rate (ChakraSystem_init 100 0.5)"
    by (simp_all add: ChakraSystem_init_def)
  have h4: "\<forall>a c. jutsu_costs (ChakraSystem_init 100 0.5) a = Some c \<longrightarrow> 0 \<le> c"
    by (simp add: ChakraSystem_init_def init_costs_nonneg)
  from h1 h2 h3 h4 chakra_level_bounds [OF h1 h2 h3 h4] show ?thesis by blast
qed




section \<open>Properties of the gesture hold logic\<close>

lemmas run_defs = process_gesture_def try_activate_def can_use_jutsu_eq use_jutsu_eq
  dict_get_def run_step_def regenerate_def update_effects_def
  returned_def hold_after_def hold_state_def confirmations_def

lemma activate_jutsu_eq:
  "activate_jutsu je g t =
     (case jutsu_map je g of
        None \<Rightarrow> Inr (None, je)
      | Some n \<Rightarrow>
          Inr (Some n, je\<lparr>active_effects := active_effects je @
                              [\<lparr>name = n, start_time = t, progress = 0.0\<rparr>]\<rparr>))"
  by (cases "jutsu_map je g") (simp_all add: activate_jutsu_def subscript_def)

text \<open>The activation attempt raises nothing and leaves the hold fields alone.\<close>

lemma try_activate_hold:
  "\<exists>app'. try_activate app g t = Inr app' \<and>
     last_gesture app' = last_gesture app \<and>
     gesture_start_time app' = gesture_start_time app \<and>
     gesture_hold_duration app' = gesture_hold_duration app \<and>
     paused app' = paused app"
  by (cases "jutsu_costs (chakra_system app) g"; cases "jutsu_map (jutsu_engine app) g")
     (auto simp: try_activate_def can_use_jutsu_eq use_jutsu_eq activate_jutsu_eq)

text \<open>The five paths through \<open>process_gesture\<close>.\<close>

lemma process_gesture_reset:
  "gesture = None \<or> gesture = Some ''Unknown'' \<Longrightarrow>
   process_gesture app gesture now =
     Inr (None, app\<lparr>last_gesture := None, gesture_start_time := None\<rparr>)"
  by (auto simp: process_gesture_def)

lemma process_gesture_new:
  "g \<noteq> ''Unknown'' \<Longrightarrow> last_gesture app \<noteq> Some g \<Longrightarrow>
   process_gesture app (Some g) now =
     Inr (None, app\<lparr>last_gesture := Some g, gesture_start_time := Some now\<rparr>)"
  by (auto simp: process_gesture_def)

lemma process_gesture_idle:
  "g \<noteq> ''Unknown'' \<Longrightarrow> last_gesture app = Some g \<Longrightarrow>
   gesture_start_time app = None \<or> gesture_start_time app = Some 0 \<Longrightarrow>
   process_gesture app (Some g) now = Inr (None, app)"
  by (auto simp: process_gesture_def)

lemma process_gesture_wait:
  "g \<noteq> ''Unknown'' \<Longrightarrow> last_gesture app = Some g \<Longrightarrow> gesture_start_time app = Some s \<Longrightarrow>
   now - s < gesture_hold_duration app \<Longrightarrow>
   process_gesture app (Some g) now = Inr (None, app)"
  by (auto simp: process_gesture_def)

lemma process_gesture_confirm:
  assumes "g \<noteq> ''Unknown''" and "last_gesture app = Some g"
    and "gesture_start_time app = Some s" and "s \<noteq> 0"
    and "gesture_hold_duration app \<le> now - s"
  shows "\<exists>app'. process_gesture app (Some g) now = Inr (Some g, app') \<and>
           last_gesture app' = Some g \<and> gesture_start_time app' = None \<and>
           gesture_hold_duration app' = gesture_hold_duration app"
proof -
  from try_activate_hold [of app g now] obtain app1 where
    "try_activate app g now = Inr app1" "last_gesture app1 = last_gesture app"
    "gesture_hold_duration app1 = gesture_hold_duration app" by blast
  with assms show ?thesis by (simp add: process_gesture_def)
qed

lemma process_gesture_cases:
  "\<exists>c app'. process_gesture app (Some g) now = Inr (c, app') \<and>
     (c = None \<or> (c = Some g \<and> g \<noteq> ''Unknown'' \<and> last_gesture app' = Some g \<and>
                  gesture_start_time app' = None)) \<and>
     (gesture_start_time app' \<noteq> None \<longrightarrow> last_gesture app' \<noteq> None)"
proof (cases "g = ''Unknown''")
  case True
  then show ?thesis by (simp add: process_gesture_reset)
next
  case g: False
  show ?thesis
  proof (cases "last_gesture app = Some g")
    case False
    with g show ?thesis by (simp add: process_gesture_new)
  next
    case l: True
    show ?thesis
    proof (cases "gesture_start_time app")
      case None
      with g l show ?thesis by (simp add: process_gesture_idle)
    next
      case (Some s)
      show ?thesis
      proof (cases "s = 0 \<or> now - s < gesture_hold_duration app")
        case True
        with g l Some show ?thesis
          by (auto simp: process_gesture_idle process_gesture_wait)
      next
        case False
        with g process_gesture_confirm [OF g l Some, of now] show ?thesis by auto
      qed
    qed
  qed
qed

text \<open>
  Once the label is held with the timer cleared (or with a start time of \<open>0.0\<close>), calls
  with that label do nothing.
\<close>

lemma process_gestures_idle:
  assumes "g \<noteq> ''Unknown''" and "last_gesture app = Some g"
    and "gesture_start_time app = None \<or> gesture_start_time app = Some 0"
  shows "process_gestures app (map (\<lambda>t. (Some g, t)) ts) =
           Inr (replicate (length ts) None, app)"
  using assms by (induction ts) (simp_all add: process_gesture_idle)

text \<open>
  A hold in progress since a reading \<open>s\<close> other than \<open>0.0\<close>: the calls before the
  threshold return nothing, the first call at or after it returns the label, and the calls
  after that one return nothing.
\<close>

lemma hold_confirms_first_at_threshold:
  assumes "g \<noteq> ''Unknown''" and "last_gesture app = Some g"
    and "gesture_start_time app = Some s" and "s \<noteq> 0"
    and "\<forall>t \<in> set ts. t - s < gesture_hold_duration app"
    and "gesture_hold_duration app \<le> t' - s"
  shows "returned (process_gestures app (map (\<lambda>t. (Some g, t)) (ts @ t' # us))) =
           Inr (replicate (length ts) None @ Some g # replicate (length us) None)"
  using assms(5)
proof (induction ts)
  case Nil
  from process_gesture_confirm [OF assms(1-4) assms(6)] obtain app' where
    r: "process_gesture app (Some g) t' = Inr (Some g, app')"
    and l: "last_gesture app' = Some g" and n: "gesture_start_time app' = None" by blast
  from assms(1) l n
  have "process_gestures app' (map (\<lambda>t. (Some g, t)) us) = Inr (replicate (length us) None, app')"
    by (simp add: process_gestures_idle)
  with r show ?case by (simp add: returned_def)
next
  case (Cons t ts)
  then have "process_gesture app (Some g) t = Inr (None, app)"
    using assms(1-3) by (simp add: process_gesture_wait)
  with Cons show ?case by (auto simp: returned_def split: sum.splits)
qed

text \<open>
  Claim C5. Holding one label over consecutive calls confirms on the first call whose
  reading is at least the threshold after the start of the hold, and on no earlier call;
  with a threshold of \<open>0.5\<close> the calls for \<open>Fist\<close> at \<open>0.0\<close>, \<open>0.3\<close>, \<open>0.5\<close>, \<open>0.5\<close>
  return none, none, \<open>Fist\<close>, none.

  \<open>process_gesture\<close> takes no timestamp: the start of a hold is the reading \<open>s\<close> that
  \<open>time.time()\<close> gives in the call that first sees the label, and the times of the claim
  are counted from it. That reading is a number of seconds since the epoch and not \<open>0.0\<close>
  (a stored start time of \<open>0.0\<close> would pass for no start time in
  \<open>if self.gesture_start_time:\<close>, see \<open>process_gesture_idle\<close>).

  From any state in which \<open>g\<close> is not the held label, for calls that all observe \<open>g\<close>: the
  call at \<open>s\<close> starts the hold and returns nothing; the calls at readings \<open>ts\<close>, all less
  than the threshold after \<open>s\<close>, return nothing; the first call at a reading \<open>t'\<close> at least
  the threshold after \<open>s\<close> returns \<open>g\<close>; every call after it returns nothing. And from the
  constructed application the calls for \<open>Fist\<close> at \<open>s\<close>, \<open>s + 0.3\<close>, \<open>s + 0.5\<close>,
  \<open>s + 0.5\<close> return none, none, \<open>Fist\<close>, none.
\<close>

theorem held_label_confirms_at_threshold:
  assumes "g \<noteq> ''Unknown''" and "last_gesture app \<noteq> Some g" and "s \<noteq> 0"
    and "\<forall>t \<in> set ts. t - s < gesture_hold_duration app"
    and "gesture_hold_duration app \<le> t' - s"
  shows "returned (process_gestures app (map (\<lambda>t. (Some g, t)) (s # ts @ t' # us))) =
           Inr (None # replicate (length ts) None @ Some g # replicate (length us) None) \<and>
         returned (process_gestures JutsuRecognitionApp_init
            [(Some ''Fist'', s), (Some ''Fist'', s + 0.3), (Some ''Fist'', s + 0.5),
             (Some ''Fist'', s + 0.5)])
           = Inr [None, None, Some ''Fist'', None]"
proof -
  let ?app1 = "app\<lparr>last_gesture := Some g, gesture_start_time := Some s\<rparr>"
  have first: "process_gesture app (Some g) s = Inr (None, ?app1)"
    using assms(1,2) by (simp add: process_gesture_new)
  have "returned (process_gestures ?app1 (map (\<lambda>t. (Some g, t)) (ts @ t' # us))) =
          Inr (replicate (length ts) None @ Some g # replicate (length us) None)"
    using assms by (intro hold_confirms_first_at_threshold [where s = s]) simp_all
  with first
  have general: "returned (process_gestures app (map (\<lambda>t. (Some g, t)) (s # ts @ t' # us))) =
           Inr (None # replicate (length ts) None @ Some g # replicate (length us) None)"
    by (auto simp: returned_def split: sum.splits)
  have scenario: "returned (process_gestures JutsuRecognitionApp_init
            [(Some ''Fist'', s), (Some ''Fist'', s + 0.3), (Some ''Fist'', s + 0.5),
             (Some ''Fist'', s + 0.5)])
           = Inr [None, None, Some ''Fist'', None]"
    using assms(3) by (simp add: init_defs run_defs activate_jutsu_eq)
  from general scenario show ?thesis by blast
qed

text \<open>
  From the constructed application: \<open>Open Palm\<close> at \<open>100\<close>, \<open>100.2\<close>, \<open>100.4\<close>, \<open>100.5\<close>,
  \<open>100.5\<close> and \<open>160\<close> confirms on the fourth call only; \<open>Fist\<close> at \<open>100\<close>, \<open>100.3\<close>,
  \<open>100.5\<close>, \<open>100.5\<close> confirms on the third call only.
\<close>

theorem held_label_confirms_at_threshold_witness:
  "returned (process_gestures JutsuRecognitionApp_init
      [(Some ''Open Palm'', 100), (Some ''Open Palm'', 100.2), (Some ''Open Palm'', 100.4),
       (Some ''Open Palm'', 100.5), (Some ''Open Palm'', 100.5), (Some ''Open Palm'', 160)]) =
     Inr [None, None, None, Some ''Open Palm'', None, None] \<and>
   returned (process_gestures JutsuRecognitionApp_init
      [(Some ''Fist'', 100), (Some ''Fist'', 100.3), (Some ''Fist'', 100.5),
       (Some ''Fist'', 100.5)])
     = Inr [None, None, Some ''Fist'', None]"
proof -
  have g: "''Open Palm'' \<noteq> ''Unknown''" by simp
  have l: "last_gesture JutsuRecognitionApp_init \<noteq> Some ''Open Palm''"
    by (simp add: JutsuRecognitionApp_init_def)
  have s: "(100::real) \<noteq> 0" by simp
  have b: "\<forall>t \<in> set [100.2, 100.4]. t - 100 < gesture_hold_duration JutsuRecognitionApp_init"
    by (simp add: JutsuRecognitionApp_init_def)
  have a: "gesture_hold_duration JutsuRecognitionApp_init \<le> 100.5 - 100"
    by (simp add: JutsuRecognitionApp_init_def)
  from held_label_confirms_at_threshold [OF g l s b a, of "[100.5, 160]"] show ?thesis by simp
qed

text \<open>
  Claim C6, as stated: after every call the start time is set if and only if a label is
  held, and after a confirming call both are none. The code keeps the label when it
  confirms: after \<open>Fist\<close> at \<open>100\<close> and at \<open>100.5\<close> the second call confirms and leaves
  the label \<open>Fist\<close> with no start time.
\<close>

theorem confirmed_hold_keeps_label:
  "returned (process_gestures JutsuRecognitionApp_init
      [(Some ''Fist'', 100), (Some ''Fist'', 100.5)]) = Inr [None, Some ''Fist''] \<and>
   hold_after (process_gestures JutsuRecognitionApp_init
      [(Some ''Fist'', 100), (Some ''Fist'', 100.5)]) = Inr (Some ''Fist'', None) \<and>
   \<not> hold_iff (Some ''Fist'', None)"
  by (simp add: init_defs run_defs activate_jutsu_eq hold_iff_def)

text \<open>
  Claim C6, amended. After every call to \<open>process_gesture\<close>, from any state: if the start
  time is set then a label is held; and immediately after a call that confirms a label,
  the start time is none and the held label is still the confirmed label.
\<close>

theorem start_time_implies_label:
  "\<exists>c app'. process_gesture app gesture now = Inr (c, app') \<and>
     (gesture_start_time app' \<noteq> None \<longrightarrow> last_gesture app' \<noteq> None) \<and>
     (c \<noteq> None \<longrightarrow> last_gesture app' = c \<and> gesture_start_time app' = None)"
proof (cases gesture)
  case None
  then show ?thesis by (simp add: process_gesture_reset)
next
  case (Some g)
  from process_gesture_cases [of app g now] obtain c app' where
    r: "process_gesture app (Some g) now = Inr (c, app')"
    and c: "c = None \<or> (c = Some g \<and> g \<noteq> ''Unknown'' \<and> last_gesture app' = Some g \<and>
                  gesture_start_time app' = None)"
    and i: "gesture_start_time app' \<noteq> None \<longrightarrow> last_gesture app' \<noteq> None" by blast
  with Some show ?thesis by auto
qed

theorem start_time_implies_label_witness:
  "returned (process_gesture (JutsuRecognitionApp_init\<lparr>last_gesture := Some ''Fist'', gesture_start_time := Some 100\<rparr>) (Some ''Fist'') 100.5) = Inr (Some ''Fist'') \<and>
   hold_after (process_gesture (JutsuRecognitionApp_init\<lparr>last_gesture := Some ''Fist'', gesture_start_time := Some 100\<rparr>) (Some ''Fist'') 100.5) = Inr (Some ''Fist'', None) \<and>
   hold_after (process_gesture (JutsuRecognitionApp_init\<lparr>last_gesture := Some ''Fist'', gesture_start_time := Some 100\<rparr>) (Some ''Open Palm'') 100.2) = Inr (Some ''Open Palm'', Some 100.2)"
  using start_time_implies_label [of "(JutsuRecognitionApp_init\<lparr>last_gesture := Some ''Fist'', gesture_start_time := Some 100\<rparr>)" "Some ''Fist''" "100.5"]
    start_time_implies_label [of "(JutsuRecognitionApp_init\<lparr>last_gesture := Some ''Fist'', gesture_start_time := Some 100\<rparr>)" "Some ''Open Palm''" "100.2"]
  by (simp add: init_defs run_defs activate_jutsu_eq)

text \<open>
  Claim C7. A call whose label differs from the held one, and is neither none nor
  \<open>Unknown\<close>, returns nothing, however long the previous label was held, and restarts the
  hold: the held label becomes the new label and the start time becomes the reading of
  this call. A later call with the new label can confirm only at a reading that is a full
  threshold after it.
\<close>

theorem new_label_restarts_hold:
  assumes "g \<noteq> ''Unknown''" and "last_gesture app \<noteq> Some g"
  shows "process_gesture app (Some g) now =
           Inr (None, app\<lparr>last_gesture := Some g, gesture_start_time := Some now\<rparr>) \<and>
         (\<forall>t c app2.
            process_gesture (app\<lparr>last_gesture := Some g, gesture_start_time := Some now\<rparr>)
              (Some g) t = Inr (Some c, app2)
            \<longrightarrow> gesture_hold_duration app \<le> t - now)"
  using assms
  by (auto simp: process_gesture_new process_gesture_def Let_def split: if_splits sum.splits)

text \<open>
  \<open>Fist\<close> held since \<open>100\<close>, \<open>Open Palm\<close> seen at \<open>200\<close>: nothing is confirmed and the hold
  restarts at \<open>200\<close>; \<open>Open Palm\<close> confirms at \<open>200.5\<close>.
\<close>

theorem new_label_restarts_hold_witness:
  "process_gesture (JutsuRecognitionApp_init\<lparr>last_gesture := Some ''Fist'', gesture_start_time := Some 100\<rparr>) (Some ''Open Palm'') 200 =
     Inr (None, (JutsuRecognitionApp_init\<lparr>last_gesture := Some ''Fist'', gesture_start_time := Some 100\<rparr>)\<lparr>last_gesture := Some ''Open Palm'', gesture_start_time := Some 200\<rparr>) \<and>
   returned (process_gesture
               ((JutsuRecognitionApp_init\<lparr>last_gesture := Some ''Fist'', gesture_start_time := Some 100\<rparr>)\<lparr>last_gesture := Some ''Open Palm'', gesture_start_time := Some 200\<rparr>)
               (Some ''Open Palm'') 200.5) = Inr (Some ''Open Palm'')"
proof -
  have h1: "''Open Palm'' \<noteq> ''Unknown''" by simp
  have h2: "last_gesture (JutsuRecognitionApp_init\<lparr>last_gesture := Some ''Fist'', gesture_start_time := Some 100\<rparr>) \<noteq> Some ''Open Palm''" by simp
  from new_label_restarts_hold [OF h1 h2, of 200] show ?thesis
    by (simp add: init_defs run_defs activate_jutsu_eq)
qed

text \<open>
  Claim C9. In a sequence of calls that all observe the same label, from any state and at
  any readings, at most one call confirms.
\<close>

theorem same_label_confirms_at_most_once:
  "\<exists>n. confirmations (process_gestures app (map (\<lambda>t. (Some g, t)) ts)) = Inr n \<and> n \<le> 1"
proof -
  have "\<exists>outs app'. process_gestures app (map (\<lambda>t. (Some g, t)) ts) = Inr (outs, app') \<and>
          length (filter (\<lambda>c. c \<noteq> None) outs) \<le> 1"
  proof (induction ts arbitrary: app)
    case Nil
    show ?case by simp
  next
    case (Cons t ts)
    from process_gesture_cases [of app g t] obtain c app1 where
      r: "process_gesture app (Some g) t = Inr (c, app1)"
      and c: "c = None \<or> (c = Some g \<and> g \<noteq> ''Unknown'' \<and> last_gesture app1 = Some g \<and>
                    gesture_start_time app1 = None)" by blast
    from c show ?case
    proof
      assume "c = None"
      with r Cons.IH [of app1] show ?thesis by auto
    next
      assume h: "c = Some g \<and> g \<noteq> ''Unknown'' \<and> last_gesture app1 = Some g \<and>
                    gesture_start_time app1 = None"
      then have "process_gestures app1 (map (\<lambda>t. (Some g, t)) ts) =
                   Inr (replicate (length ts) None, app1)"
        by (simp add: process_gestures_idle)
      with r h show ?thesis by simp
    qed
  qed
  then show ?thesis by (auto simp: confirmations_def)
qed

text \<open>\<open>Fist\<close> at \<open>1.0\<close>, \<open>1.3\<close>, \<open>1.5\<close>, \<open>1.9\<close> and \<open>60\<close>: one confirmation.\<close>

theorem same_label_confirms_at_most_once_witness:
  "confirmations (process_gestures JutsuRecognitionApp_init
     (map (\<lambda>t. (Some ''Fist'', t)) [1.0, 1.3, 1.5, 1.9, 60])) = Inr 1"
  using same_label_confirms_at_most_once [of JutsuRecognitionApp_init "''Fist''" "[1.0, 1.3, 1.5, 1.9, 60]"]
  by (simp add: init_defs run_defs activate_jutsu_eq)

text \<open>
  Claim C10. Immediately after a call in which the hold threshold was reached,
  \<open>last_gesture\<close> still holds the confirmed label and \<open>gesture_start_time\<close> is none,
  whatever the chakra system answered; every later call with the same label in that state
  returns nothing and changes nothing.
\<close>

theorem reached_threshold_clears_timer_only:
  assumes "g \<noteq> ''Unknown''" and "last_gesture app = Some g"
    and "gesture_start_time app = Some s" and "s \<noteq> 0"
    and "gesture_hold_duration app \<le> now - s"
  shows "\<exists>app'. process_gesture app (Some g) now = Inr (Some g, app') \<and>
           last_gesture app' = Some g \<and> gesture_start_time app' = None \<and>
           (\<forall>t. process_gesture app' (Some g) t = Inr (None, app'))"
proof -
  from process_gesture_confirm [OF assms] obtain app' where
    r: "process_gesture app (Some g) now = Inr (Some g, app')"
    and l: "last_gesture app' = Some g" and s: "gesture_start_time app' = None" by blast
  from assms(1) l s have "process_gesture app' (Some g) t = Inr (None, app')" for t
    by (simp add: process_gesture_idle)
  with r l s show ?thesis by blast
qed

text \<open>
  With chakra to spend (the constructed system) and without (a level of \<open>0\<close>, where the
  call changes nothing but the timer): in both the timer is cleared and the label stays.
\<close>

theorem reached_threshold_clears_timer_only_witness:
  "hold_after (process_gesture (JutsuRecognitionApp_init\<lparr>last_gesture := Some ''Fist'', gesture_start_time := Some 100\<rparr>) (Some ''Fist'') 100.5) = Inr (Some ''Fist'', None) \<and>
   process_gesture ((JutsuRecognitionApp_init\<lparr>last_gesture := Some ''Fist'', gesture_start_time := Some 100\<rparr>)\<lparr>chakra_system := (ChakraSystem_init 100 0.5)\<lparr>current_chakra := 0\<rparr>\<rparr>)
       (Some ''Fist'') 100.5 =
     Inr (Some ''Fist'',
          (JutsuRecognitionApp_init\<lparr>last_gesture := Some ''Fist'', gesture_start_time := Some 100\<rparr>)\<lparr>chakra_system := (ChakraSystem_init 100 0.5)\<lparr>current_chakra := 0\<rparr>,
              gesture_start_time := None\<rparr>) \<and>
   returned (process_gestures (JutsuRecognitionApp_init\<lparr>last_gesture := Some ''Fist'', gesture_start_time := Some 100\<rparr>) [(Some ''Fist'', 100.5), (Some ''Fist'', 100.6), (Some ''Fist'', 300)])
     = Inr [Some ''Fist'', None, None]"
proof -
  let ?B = "(JutsuRecognitionApp_init\<lparr>last_gesture := Some ''Fist'', gesture_start_time := Some 100\<rparr>)\<lparr>chakra_system := (ChakraSystem_init 100 0.5)\<lparr>current_chakra := 0\<rparr>\<rparr>"
  have g: "''Fist'' \<noteq> ''Unknown''" by simp
  have a: "last_gesture (JutsuRecognitionApp_init\<lparr>last_gesture := Some ''Fist'', gesture_start_time := Some 100\<rparr>) = Some ''Fist''" "gesture_start_time (JutsuRecognitionApp_init\<lparr>last_gesture := Some ''Fist'', gesture_start_time := Some 100\<rparr>) = Some 100"
    and b: "last_gesture ?B = Some ''Fist''" "gesture_start_time ?B = Some 100"
    and z: "(100::real) \<noteq> 0"
    and ta: "gesture_hold_duration (JutsuRecognitionApp_init\<lparr>last_gesture := Some ''Fist'', gesture_start_time := Some 100\<rparr>) \<le> 100.5 - 100"
    and tb: "gesture_hold_duration ?B \<le> 100.5 - 100"
    by (simp_all add: JutsuRecognitionApp_init_def)
  from reached_threshold_clears_timer_only [OF g a z ta]
    reached_threshold_clears_timer_only [OF g b z tb]
  show ?thesis by (simp add: init_defs run_defs activate_jutsu_eq)
qed

section \<open>The loop of \<open>run\<close>\<close>

text \<open>
  A frame without a hand never reaches \<open>process_gesture\<close>: whatever the pass returns, the
  hold state is the one before it.
\<close>

lemma run_step_no_hand:
  "run_step app None now = Inr (c, app') \<Longrightarrow> c = None \<and> hold_state app' = hold_state app"
  by (auto simp: run_step_def update_effects_def hold_state_def Let_def
           split: if_splits sum.splits)

text \<open>A frame classified \<open>Unknown\<close> does reach it, and resets the hold.\<close>

lemma run_step_unknown:
  "\<not> paused app \<Longrightarrow> run_step app (Some ''Unknown'') now = Inr (c, app') \<Longrightarrow>
   c = None \<and> hold_state app' = (None, None)"
  by (auto simp: run_step_def process_gesture_def update_effects_def hold_state_def Let_def
           split: if_splits sum.splits)

text \<open>
  Claim C8. On every pass of the loop the hold logic is to run with the frame's result,
  and a result of none (no hand) or \<open>Unknown\<close> is to reset the hold on that pass, so that
  a hold does not survive a frame without a recognised gesture.

  \<open>process_gesture\<close> resets on both (\<open>process_gesture_reset\<close>), and an \<open>Unknown\<close> frame
  resets the hold (\<open>run_step_unknown\<close>). But \<open>run\<close> calls it under \<open>if gesture:\<close>, so a
  frame without a hand leaves the hold as it was (\<open>run_step_no_hand\<close>): with \<open>Fist\<close> at
  \<open>100\<close>, no hand at \<open>100.3\<close> and \<open>Fist\<close> at \<open>100.6\<close>, the hold that started at \<open>100\<close> is
  still there after the second frame and the third frame confirms.
\<close>

theorem no_hand_frame_keeps_hold:
  "hold_after (run_steps JutsuRecognitionApp_init [(Some ''Fist'', 100), (None, 100.3)])
     = Inr (Some ''Fist'', Some 100) \<and>
   returned (run_steps JutsuRecognitionApp_init
     [(Some ''Fist'', 100), (None, 100.3), (Some ''Fist'', 100.6)])
     = Inr [None, None, Some ''Fist'']"
  by (simp add: init_defs run_defs activate_jutsu_eq)

end
